theory Spec2Isabelle
  imports Main
begin

section \<open>Errors\<close>

text \<open>
  Every \<^verbatim>\<open>throw\<close> of the TypeScript sources, and every rejected promise of an awaited
  call, is a value of this type. \<^verbatim>\<open>SubscriptionNotFound\<close> and
  \<^verbatim>\<open>SubscriptionNotPending\<close> are the error classes of \<^verbatim>\<open>domain/payment\<close>;
  \<^verbatim>\<open>Error\<close> is a plain \<^verbatim>\<open>new Error(message)\<close> (the two lifecycle checks of
  \<^verbatim>\<open>Order\<close> throw it; the specification files them under its InvalidState kind);
  \<^verbatim>\<open>TypeError\<close> is a property read on \<^verbatim>\<open>undefined\<close>; \<^verbatim>\<open>PlanNotFound\<close> is raised by the
  plan repository; \<^verbatim>\<open>GatewayFailure\<close> stands for any rejection of an external call
  (payment provider, redeem engine).
\<close>

datatype error =
    SubscriptionNotFound
  | SubscriptionNotPending
  | PlanNotFound
  | Error string
  | TypeError
  | GatewayFailure string

section \<open>Packages and users\<close>

text \<open>
  \<^verbatim>\<open>Package\<close> and \<^verbatim>\<open>User\<close> are declared in \<^verbatim>\<open>domain/package\<close> and \<^verbatim>\<open>domain/user\<close>;
  the records keep the fields the payment code reads: \<^verbatim>\<open>p.id\<close> (a number, compared with
  \<^verbatim>\<open>parseInt\<close> in the start controller), \<^verbatim>\<open>p.name\<close>, \<^verbatim>\<open>p.description\<close>,
  \<^verbatim>\<open>p.price.currency\<close>, \<^verbatim>\<open>p.price.amount\<close>, \<^verbatim>\<open>user.steam.id\<close> and
  \<^verbatim>\<open>user.discord.id\<close>. Field names carry a prefix because a record field is a global
  constant.
\<close>

record Price =
  currency :: string
  amount :: string

record Package =
  pkg_id :: int
  pkg_name :: string
  pkg_description :: string
  pkg_price :: Price

record User =
  user_steam_id :: string
  user_discord_id :: string

text \<open>A template literal renders an integral number in decimal, with a leading minus sign.\<close>

function show_nat :: "nat \<Rightarrow> string" where
  "show_nat n =
     (if n < 10 then [''0123456789'' ! n]
      else show_nat (n div 10) @ [''0123456789'' ! (n mod 10)])"
  by pat_completeness auto
termination
  by (relation "measure (\<lambda>n. n)") auto

definition show_int :: "int \<Rightarrow> string" where
  "show_int i = (if i < 0 then ''-'' @ show_nat (nat (- i)) else show_nat (nat i))"

section \<open>Reference\<close>

record Reference =
  ref_steamId :: "string option"
  ref_discordId :: string
  ref_p :: Package

text \<open>
  \<^verbatim>\<open>a || b\<close> on strings: \<^verbatim>\<open>a\<close> unless it is falsy, that is \<^verbatim>\<open>null\<close> or the empty
  string.
\<close>

definition js_or :: "string option \<Rightarrow> string \<Rightarrow> string" where
  "js_or a b = (case a of None \<Rightarrow> b | Some s \<Rightarrow> if s = [] then b else s)"

definition asString :: "Reference \<Rightarrow> string" where
  "asString r = js_or (ref_steamId r) (ref_discordId r) @ ''#'' @ show_int (pkg_id (ref_p r))"

section \<open>Order\<close>

datatype OrderStatus = CREATED | PAID

text \<open>
  \<^verbatim>\<open>OrderPayment\<close>: \<^verbatim>\<open>transactionId\<close> is optional in the interface. \<^verbatim>\<open>id\<close> and
  \<^verbatim>\<open>provider\<close> are declared as plain strings, yet \<^verbatim>\<open>Subscription.pay\<close> fills \<^verbatim>\<open>id\<close> from
  the optional \<^verbatim>\<open>Subscription.payment.id\<close> and \<^verbatim>\<open>redeemSubscriptionPayment\<close> builds the
  object without \<^verbatim>\<open>provider\<close>, so both are optional here.
\<close>

record OrderPayment =
  op_id :: "string option"
  op_transactionId :: "string option"
  op_provider :: "string option"

text \<open>Dates are milliseconds since the epoch. \<^verbatim>\<open>payment\<close> is \<^verbatim>\<open>null\<close> after \<^verbatim>\<open>createDeferred\<close>.\<close>

record Order =
  order_id :: string
  order_created :: nat
  order_reference :: Reference
  order_customMessage :: "string option"
  order_redeemedAt :: "nat option"
  order_status :: OrderStatus
  order_payment :: "OrderPayment option"

text \<open>
  The first argument of the factory functions is the value \<^verbatim>\<open>v4()\<close> returns at that call.
\<close>

definition Order_create ::
  "string \<Rightarrow> nat \<Rightarrow> OrderPayment \<Rightarrow> Reference \<Rightarrow> string option \<Rightarrow> Order" where
  "Order_create uuid created payment reference customMessage =
     \<lparr>order_id = uuid, order_created = created, order_reference = reference,
      order_customMessage = customMessage, order_redeemedAt = None,
      order_status = CREATED, order_payment = Some payment\<rparr>"

definition Order_createDeferred :: "string \<Rightarrow> nat \<Rightarrow> Reference \<Rightarrow> string option \<Rightarrow> Order" where
  "Order_createDeferred uuid created reference customMessage =
     \<lparr>order_id = uuid, order_created = created, order_reference = reference,
      order_customMessage = customMessage, order_redeemedAt = None,
      order_status = CREATED, order_payment = None\<rparr>"

text \<open>
  A method that mutates \<^verbatim>\<open>this\<close> returns its outcome together with the object as the
  call leaves it, so that what a throwing call did to the object is part of the model.
\<close>

definition paymentIntent :: "OrderPayment \<Rightarrow> Order \<Rightarrow> (error + unit) \<times> Order" where
  "paymentIntent payment this =
     (if order_payment this \<noteq> None
      then (Inl (Error ''can not intent to pay an order with an active payment intent''), this)
      else (Inr (), this\<lparr>order_payment := Some payment\<rparr>))"

definition Order_pay :: "string \<Rightarrow> Order \<Rightarrow> (error + unit) \<times> Order" where
  "Order_pay transactionId this =
     (case order_payment this of
        None \<Rightarrow> (Inl (Error ''paying an order which was not intended to be payed, yet''), this)
      | Some pm \<Rightarrow>
          (Inr (), this\<lparr>order_payment := Some (pm\<lparr>op_transactionId := Some transactionId\<rparr>),
                         order_status := PAID\<rparr>))"

section \<open>SubscriptionPlan and Subscription\<close>

record PlanPayment =
  productId :: string
  planId :: string

record SubscriptionPlan =
  plan_id :: string
  basePackage :: Package
  plan_payment :: PlanPayment

definition SubscriptionPlan_create :: "string \<Rightarrow> Package \<Rightarrow> string \<Rightarrow> string \<Rightarrow> SubscriptionPlan" where
  "SubscriptionPlan_create uuid basePackage' productId' planId' =
     \<lparr>plan_id = uuid, basePackage = basePackage',
      plan_payment = \<lparr>productId = productId', planId = planId'\<rparr>\<rparr>"

datatype SubscriptionState = PENDING | ACTIVE | CANCELLED

text \<open>
  \<^verbatim>\<open>Subscription.payment\<close> is the object \<^verbatim>\<open>{id?: string}\<close>; \<^verbatim>\<open>sub_payment_id\<close> is its
  optional \<^verbatim>\<open>id\<close>. \<^verbatim>\<open>sub_steamId\<close> and \<^verbatim>\<open>sub_discordId\<close> are the fields of
  \<^verbatim>\<open>Subscription.user\<close>.
\<close>

record Subscription =
  sub_id :: string
  sub_planId :: string
  sub_payment_id :: "string option"
  sub_steamId :: string
  sub_discordId :: string
  sub_state :: SubscriptionState

definition Subscription_create :: "string \<Rightarrow> SubscriptionPlan \<Rightarrow> User \<Rightarrow> Subscription" where
  "Subscription_create uuid plan user =
     \<lparr>sub_id = uuid, sub_planId = plan_id plan, sub_payment_id = None,
      sub_steamId = user_steam_id user, sub_discordId = user_discord_id user,
      sub_state = PENDING\<rparr>"

definition Subscription_cancel :: "Subscription \<Rightarrow> Subscription" where
  "Subscription_cancel this = this\<lparr>sub_state := CANCELLED\<rparr>"

definition agreeBilling :: "string \<Rightarrow> Subscription \<Rightarrow> Subscription" where
  "agreeBilling paymentId this = this\<lparr>sub_payment_id := Some paymentId\<rparr>"

text \<open>
  \<^verbatim>\<open>Subscription.pay\<close> creates the order of a billing cycle, pays it and then assigns
  \<^verbatim>\<open>ACTIVE\<close>; were \<^verbatim>\<open>order.pay\<close> to throw, the assignment would not be reached.
\<close>

definition Subscription_pay ::
  "string \<Rightarrow> nat \<Rightarrow> string \<Rightarrow> string \<Rightarrow> Package \<Rightarrow> Subscription \<Rightarrow> (error + Order) \<times> Subscription" where
  "Subscription_pay uuid now transactionId provider p this =
     (let order = Order_create uuid now
                    \<lparr>op_id = sub_payment_id this, op_transactionId = Some transactionId,
                     op_provider = Some provider\<rparr>
                    \<lparr>ref_steamId = Some (sub_steamId this), ref_discordId = sub_discordId this,
                     ref_p = p\<rparr>
                    None
      in case Order_pay transactionId order of
           (Inl e, _) \<Rightarrow> (Inl e, this)
         | (Inr _, order') \<Rightarrow> (Inr order', this\<lparr>sub_state := ACTIVE\<rparr>))"

definition isActive :: "Subscription \<Rightarrow> bool" where
  "isActive this = (sub_state this \<in> set [PENDING, ACTIVE])"

text \<open>
  \<^verbatim>\<open>asLink\<close> and \<^verbatim>\<open>abortLink\<close> resolve a path against \<^verbatim>\<open>config.app.publicUrl\<close>; the
  model returns the path, which is what the subscription contributes.
\<close>

definition Subscription_asLink :: "Subscription \<Rightarrow> string" where
  "Subscription_asLink this = ''/subscriptions/'' @ sub_id this"

definition abortLink :: "Subscription \<Rightarrow> error + string" where
  "abortLink this =
     (if sub_state this \<noteq> PENDING then Inl SubscriptionNotPending
      else Inr (''/subscriptions/'' @ sub_id this @ ''/abort''))"

text \<open>
  A JavaScript call binds its arguments to the parameters by position and drops the surplus
  ones, whatever their types. \<^verbatim>\<open>Subscription.create(plan, user)\<close> reads
  \<^verbatim>\<open>user.steam.id\<close> and \<^verbatim>\<open>user.discord.id\<close>: given a user object it builds the
  Subscription; given a string, \<^verbatim>\<open>user.steam\<close> is \<^verbatim>\<open>undefined\<close> and reading its
  \<^verbatim>\<open>id\<close> throws a \<^verbatim>\<open>TypeError\<close>.
\<close>

datatype js_value = UserValue User | StringValue string

definition Subscription_create_applied ::
  "string \<Rightarrow> SubscriptionPlan \<Rightarrow> js_value \<Rightarrow> error + Subscription" where
  "Subscription_create_applied uuid plan user =
     (case user of
        UserValue u \<Rightarrow> Inr (Subscription_create uuid plan u)
      | StringValue str \<Rightarrow> Inl TypeError)"

section \<open>Repositories, collaborators and the system state\<close>

record PendingSubscription =
  ps_id :: string
  approvalLink :: string

record RedeemTarget =
  target_steamId :: string
  target_discordId :: string

text \<open>
  What the orchestrator does to the outside world, in the order it does it: calls of the
  payment gateway and of the redeem engine, emitted events, and writes to the repositories.
\<close>

datatype call =
    GatewaySubscribe SubscriptionPlan User
  | GatewayCancelSubscription Subscription
  | SubscriptionSaved Subscription
  | OrderSaved Order
  | Redeem Order RedeemTarget
  | Emit string RedeemTarget Order

record sys =
  subscriptions :: "Subscription list"
  subscriptionPlans :: "SubscriptionPlan list"
  orders :: "Order list"
  calls :: "call list"

text \<open>
  The external collaborators of \<^verbatim>\<open>Subscriptions\<close>: the payment gateway
  (\<^verbatim>\<open>payment.subscribe(plan, user)\<close>, \<^verbatim>\<open>payment.cancelSubscription(subscription)\<close>) and the
  redeem engine (\<^verbatim>\<open>redeem.redeem(order, target)\<close>). Each answers or rejects. What the redeem
  engine itself writes (perks, \<^verbatim>\<open>redeemedAt\<close>) is outside this development.
\<close>

record collaborators =
  gw_subscribe :: "SubscriptionPlan \<Rightarrow> User \<Rightarrow> error + PendingSubscription"
  gw_cancelSubscription :: "Subscription \<Rightarrow> error + unit"
  redeem_engine :: "Order \<Rightarrow> RedeemTarget \<Rightarrow> error + unit"

text \<open>
  The repositories (\<^verbatim>\<open>domain/repositories\<close> and their implementations) are missing from
  the sources; each of their operations below is modelled from the specification. A store is
  a list with one entry per id.
\<close>

text \<open>
  Modelled from the spec: \<^verbatim>\<open>save\<close> of the three repositories, missing from the sources.
  Specification 6: \<^emph>\<open>find/save for Order, Subscription, SubscriptionPlan, by id and by payment
  id\<close>; section 3: \<^emph>\<open>persisted after every mutation\<close>. Saving replaces the entry of the same id
  or appends a new one.
\<close>

fun upsert :: "('a \<Rightarrow> string) \<Rightarrow> 'a \<Rightarrow> 'a list \<Rightarrow> 'a list" where
  "upsert key x [] = [x]"
| "upsert key x (y # ys) = (if key y = key x then x # ys else y # upsert key x ys)"

text \<open>
  Modelled from the spec: \<^verbatim>\<open>SubscriptionsRepository.find(id)\<close>, missing from the sources.
  It answers \<^verbatim>\<open>undefined\<close> for an unknown id, which is what the guard \<^verbatim>\<open>!subscription\<close> of
  \<^verbatim>\<open>Subscriptions.subscription\<close> tests.
\<close>

definition subscriptions_find :: "string \<Rightarrow> sys \<Rightarrow> Subscription option" where
  "subscriptions_find id' s = find (\<lambda>sub. sub_id sub = id') (subscriptions s)"

text \<open>
  Modelled from the spec: \<^verbatim>\<open>SubscriptionsRepository.findByPayment(paymentId)\<close>, missing from
  the sources. Specification 4.4: \<^emph>\<open>Look up the Subscription by paymentId (fails with
  SubscriptionNotFound if no match)\<close>.
\<close>

definition subscriptions_findByPayment :: "string \<Rightarrow> sys \<Rightarrow> error + Subscription" where
  "subscriptions_findByPayment paymentId s =
     (case find (\<lambda>sub. sub_payment_id sub = Some paymentId) (subscriptions s) of
        None \<Rightarrow> Inl SubscriptionNotFound
      | Some sub \<Rightarrow> Inr sub)"

text \<open>
  Modelled from the spec: \<^verbatim>\<open>SubscriptionsRepository.save(subscription)\<close>, missing from the
  sources; see \<^const>\<open>upsert\<close>. The write is recorded among the calls.
\<close>

definition subscriptions_save :: "Subscription \<Rightarrow> sys \<Rightarrow> sys" where
  "subscriptions_save sub s =
     s\<lparr>subscriptions := upsert sub_id sub (subscriptions s),
       calls := calls s @ [SubscriptionSaved sub]\<rparr>"

text \<open>
  Modelled from the spec: \<^verbatim>\<open>SubscriptionPlanRepository.findByPackage(p)\<close>, missing from the
  sources. Specification 4.4: \<^emph>\<open>Resolve the plan for package (fails with PlanNotFound if none
  persisted)\<close>. The plan of a package is the one whose base package has its id.
\<close>

definition subscriptionPlans_findByPackage :: "Package \<Rightarrow> sys \<Rightarrow> error + SubscriptionPlan" where
  "subscriptionPlans_findByPackage p s =
     (case find (\<lambda>plan. pkg_id (basePackage plan) = pkg_id p) (subscriptionPlans s) of
        None \<Rightarrow> Inl PlanNotFound
      | Some plan \<Rightarrow> Inr plan)"

text \<open>
  Modelled from the spec: \<^verbatim>\<open>SubscriptionPlanRepository.find(id)\<close>, missing from the sources.
  Specification 4.4 names no failure for it (\<^emph>\<open>Look up the Subscription's plan\<close>): like
  \<^verbatim>\<open>find\<close> of the subscriptions it answers \<^verbatim>\<open>undefined\<close> for an unknown id.
\<close>

definition subscriptionPlans_find :: "string \<Rightarrow> sys \<Rightarrow> SubscriptionPlan option" where
  "subscriptionPlans_find id' s = find (\<lambda>plan. plan_id plan = id') (subscriptionPlans s)"

text \<open>
  Modelled from the spec: \<^verbatim>\<open>OrderRepository.save\<close>, \<^verbatim>\<open>find\<close> and
  \<^verbatim>\<open>findByPaymentOrder\<close>, missing from the sources. Specification 4.4:
  \<^emph>\<open>Aggregates full Order history for the subscription's billing id\<close>.
\<close>

definition orders_save :: "Order \<Rightarrow> sys \<Rightarrow> sys" where
  "orders_save order s =
     s\<lparr>orders := upsert order_id order (orders s), calls := calls s @ [OrderSaved order]\<rparr>"

definition orders_find :: "string \<Rightarrow> sys \<Rightarrow> Order option" where
  "orders_find id' s = find (\<lambda>order. order_id order = id') (orders s)"

definition orders_findByPaymentOrder :: "string option \<Rightarrow> sys \<Rightarrow> Order list" where
  "orders_findByPaymentOrder paymentId s =
     filter (\<lambda>order. case order_payment order of None \<Rightarrow> False | Some pm \<Rightarrow> op_id pm = paymentId)
       (orders s)"

definition record_call :: "call \<Rightarrow> sys \<Rightarrow> sys" where
  "record_call c s = s\<lparr>calls := calls s @ [c]\<rparr>"

section \<open>The Subscriptions service\<close>

text \<open>
  Each operation takes the system state and returns its outcome with the state it leaves. An
  awaited call that rejects ends the operation there, with everything done before it in
  place. \<^verbatim>\<open>uuid\<close> is the value of \<^verbatim>\<open>v4()\<close> and \<^verbatim>\<open>now\<close> that of \<^verbatim>\<open>new Date()\<close> at
  the one place the operation asks for them.
\<close>

text \<open>
  \<^verbatim>\<open>subscribe\<close> calls \<^verbatim>\<open>Subscription.create(plan, result.id, user)\<close>: the agreement id
  takes the place of the parameter \<^verbatim>\<open>user\<close> and the user is the surplus third argument.
  The argument of \<^verbatim>\<open>save\<close> is evaluated before \<^verbatim>\<open>save\<close> is called.
\<close>

definition subscribe ::
  "collaborators \<Rightarrow> string \<Rightarrow> Package \<Rightarrow> User \<Rightarrow> sys \<Rightarrow> (error + PendingSubscription) \<times> sys" where
  "subscribe env uuid p user s =
     (case subscriptionPlans_findByPackage p s of
        Inl e \<Rightarrow> (Inl e, s)
      | Inr plan \<Rightarrow>
          (let s1 = record_call (GatewaySubscribe plan user) s
           in case gw_subscribe env plan user of
                Inl e \<Rightarrow> (Inl e, s1)
              | Inr result \<Rightarrow>
                  (case Subscription_create_applied uuid plan (StringValue (ps_id result)) of
                     Inl e \<Rightarrow> (Inl e, s1)
                   | Inr sub \<Rightarrow> (Inr result, subscriptions_save sub s1))))"

text \<open>
  \<^verbatim>\<open>redeemSubscriptionPayment\<close>: the plan is looked up before the subscription is saved
  and first dereferenced (\<^verbatim>\<open>plan.basePackage\<close>) after it, so an unknown plan id surfaces as
  a \<^verbatim>\<open>TypeError\<close> once the subscription has been written as \<^verbatim>\<open>ACTIVE\<close>.
\<close>

definition redeemSubscriptionPayment ::
  "collaborators \<Rightarrow> string \<Rightarrow> nat \<Rightarrow> string \<Rightarrow> string \<Rightarrow> sys \<Rightarrow> (error + Order) \<times> sys" where
  "redeemSubscriptionPayment env uuid now paymentId transactionId s =
     (case subscriptions_findByPayment paymentId s of
        Inl e \<Rightarrow> (Inl e, s)
      | Inr sub \<Rightarrow>
          (let plan = subscriptionPlans_find (sub_planId sub) s;
               s1 = subscriptions_save (sub\<lparr>sub_state := ACTIVE\<rparr>) s
           in case plan of
                None \<Rightarrow> (Inl TypeError, s1)
              | Some plan' \<Rightarrow>
                  (let order = Order_create uuid now
                                 \<lparr>op_id = Some paymentId, op_transactionId = Some transactionId,
                                  op_provider = None\<rparr>
                                 \<lparr>ref_steamId = Some (sub_steamId sub),
                                  ref_discordId = sub_discordId sub,
                                  ref_p = basePackage plan'\<rparr>
                                 None
                   in case Order_pay transactionId order of
                        (Inl e, _) \<Rightarrow> (Inl e, s1)
                      | (Inr _, order') \<Rightarrow>
                          (let s2 = orders_save order' s1;
                               target = \<lparr>target_steamId = sub_steamId sub,
                                         target_discordId = sub_discordId sub\<rparr>;
                               s3 = record_call (Redeem order' target) s2
                           in case redeem_engine env order' target of
                                Inl e \<Rightarrow> (Inl e, s3)
                              | Inr _ \<Rightarrow>
                                  (Inr order',
                                   record_call
                                     (Emit ''successfulSubscriptionExecution'' target order')
                                     s3)))))"

text \<open>The private \<^verbatim>\<open>subscription(id, forUser)\<close>: lookup and ownership check.\<close>

definition subscription :: "string \<Rightarrow> User \<Rightarrow> sys \<Rightarrow> error + Subscription" where
  "subscription id' forUser s =
     (case subscriptions_find id' s of
        None \<Rightarrow> Inl SubscriptionNotFound
      | Some sub \<Rightarrow>
          if sub_discordId sub \<noteq> user_discord_id forUser then Inl SubscriptionNotFound
          else Inr sub)"

record ViewSubscription =
  view_subscription :: Subscription
  view_plan :: "SubscriptionPlan option"
  view_history :: "Order list"

definition viewSubscription :: "string \<Rightarrow> User \<Rightarrow> sys \<Rightarrow> error + ViewSubscription" where
  "viewSubscription id' forUser s =
     (case subscription id' forUser s of
        Inl e \<Rightarrow> Inl e
      | Inr sub \<Rightarrow>
          Inr \<lparr>view_subscription = sub,
               view_plan = subscriptionPlans_find (sub_planId sub) s,
               view_history = orders_findByPaymentOrder (sub_payment_id sub) s\<rparr>)"

definition cancel :: "collaborators \<Rightarrow> string \<Rightarrow> User \<Rightarrow> sys \<Rightarrow> (error + unit) \<times> sys" where
  "cancel env id' forUser s =
     (case subscription id' forUser s of
        Inl e \<Rightarrow> (Inl e, s)
      | Inr sub \<Rightarrow>
          (let s1 = record_call (GatewayCancelSubscription sub) s
           in case gw_cancelSubscription env sub of
                Inl e \<Rightarrow> (Inl e, s1)
              | Inr _ \<Rightarrow> (Inr (), subscriptions_save (Subscription_cancel sub) s1)))"

section \<open>The PayPal gateway\<close>

text \<open>
  The PayPal HTTP client (\<^verbatim>\<open>@paypal/checkout-server-sdk\<close>) is external: \<^verbatim>\<open>client.execute(r)\<close>
  answers or rejects, and may change PayPal's own state, of type \<^typ>\<open>'w\<close> here. The client
  has one operation per request class, typed as the source types the answer it assigns.
\<close>

type_synonym ('w, 'a) io = "'w \<Rightarrow> (error + 'a) \<times> 'w"

definition returnE :: "'a \<Rightarrow> ('w, 'a) io" where
  "returnE x w = (Inr x, w)"

text \<open>\<^verbatim>\<open>await\<close> in sequence: a rejection ends the function with that error.\<close>

definition bindE :: "('w, 'a) io \<Rightarrow> ('a \<Rightarrow> ('w, 'b) io) \<Rightarrow> ('w, 'b) io" where
  "bindE m f w = (case m w of (Inl e, w') \<Rightarrow> (Inl e, w') | (Inr x, w') \<Rightarrow> f x w')"

text \<open>
  The answers, with the fields the code reads: the id, and the properties the update
  requests compare against (absent properties are \<^verbatim>\<open>undefined\<close>).
\<close>

record Product =
  product_id :: string
  product_name :: "string option"
  product_description :: "string option"
  product_category :: "string option"
  product_home_url :: "string option"

record ProductResult =
  statusCode :: nat
  product_result :: Product

record Plan =
  paypal_plan_id :: string
  paypal_plan_name :: "string option"
  paypal_plan_description :: "string option"

record PlanResult =
  plan_result :: Plan

text \<open>The bodies of the creating requests; fields with a constant value are left out.\<close>

record CreateProduct =
  cprod_id :: string
  cprod_category :: string
  cprod_description :: string
  cprod_name :: string
  cprod_type :: string
  cprod_home_url :: "string option"

record CreatePlan =
  cplan_product_id :: string
  cplan_description :: string
  cplan_name :: string
  cplan_currency_code :: string
  cplan_value :: string

datatype patch_op = Add string string | Replace string string | Remove string

record 'w paypal_client =
  GetProductRequest :: "string \<Rightarrow> ('w, ProductResult) io"
  CreateProductRequest :: "CreateProduct \<Rightarrow> ('w, ProductResult) io"
  UpdateProductRequest :: "string \<Rightarrow> patch_op list \<Rightarrow> ('w, unit) io"
  GetPlanRequest :: "string \<Rightarrow> ('w, PlanResult) io"
  CreatePlanRequest :: "CreatePlan \<Rightarrow> ('w, PlanResult) io"
  UpdatePlanRequest :: "string \<Rightarrow> patch_op list \<Rightarrow> ('w, unit) io"
  UpdatePricingPlanRequest :: "string \<Rightarrow> string \<Rightarrow> string \<Rightarrow> ('w, unit) io"

text \<open>
  \<^verbatim>\<open>config.app.publicUrl\<close> as a string, and \<^verbatim>\<open>translate(key, {params})\<close> of the
  translations module.
\<close>

record paypal_config =
  publicUrl :: string
  translate :: "string \<Rightarrow> (string \<times> string) list \<Rightarrow> string"

text \<open>
  \<^verbatim>\<open>requestBody(original, update)\<close> of the two update requests: one JSON patch operation per
  entry of the update object, in the order of its keys.
\<close>

fun requestBody :: "(string \<Rightarrow> string option) \<Rightarrow> (string \<times> string option) list \<Rightarrow> patch_op list" where
  "requestBody original [] = []"
| "requestBody original ((k, v) # entries) =
     (case v of
        Some new \<Rightarrow>
          (case original k of
             None \<Rightarrow> [Add (''/'' @ k) new]
           | Some old \<Rightarrow> [Replace (''/'' @ k) new])
      | None \<Rightarrow>
          (case original k of
             Some old \<Rightarrow> [Remove (''/'' @ k)]
           | None \<Rightarrow> [])) @ requestBody original entries"

definition Product_property :: "Product \<Rightarrow> string \<Rightarrow> string option" where
  "Product_property o' k =
     (if k = ''id'' then Some (product_id o')
      else if k = ''name'' then product_name o'
      else if k = ''description'' then product_description o'
      else if k = ''category'' then product_category o'
      else if k = ''home_url'' then product_home_url o'
      else None)"

definition Plan_property :: "Plan \<Rightarrow> string \<Rightarrow> string option" where
  "Plan_property o' k =
     (if k = ''id'' then Some (paypal_plan_id o')
      else if k = ''name'' then paypal_plan_name o'
      else if k = ''description'' then paypal_plan_description o'
      else None)"

text \<open>\<^verbatim>\<open>String.prototype.includes\<close>.\<close>

fun string_includes :: "string \<Rightarrow> string \<Rightarrow> bool" where
  "string_includes [] needle = (needle = [])"
| "string_includes (c # cs) needle = (take (length needle) (c # cs) = needle \<or> string_includes cs needle)"

definition homeUrl :: "paypal_config \<Rightarrow> string option" where
  "homeUrl cfg = (if string_includes (publicUrl cfg) ''localhost'' then None else Some (publicUrl cfg))"

definition asProductId :: "Package \<Rightarrow> string" where
  "asProductId p = ''DONATE-'' @ show_int (pkg_id p)"

definition PaypalPayment_product :: "'w paypal_client \<Rightarrow> Package \<Rightarrow> ('w, ProductResult) io" where
  "PaypalPayment_product cl p = GetProductRequest cl (asProductId p)"

definition PaypalPayment_plan :: "'w paypal_client \<Rightarrow> string \<Rightarrow> ('w, PlanResult) io" where
  "PaypalPayment_plan cl id' = GetPlanRequest cl id'"

definition createPlan :: "'w paypal_client \<Rightarrow> paypal_config \<Rightarrow> Package \<Rightarrow> ('w, PlanResult) io" where
  "createPlan cl cfg p =
     CreatePlanRequest cl
       \<lparr>cplan_product_id = asProductId p,
        cplan_description = translate cfg ''PAYPAL_SUBSCRIPTION_MONTHLY_DESCRIPTION'' [],
        cplan_name = translate cfg ''PAYPAL_SUBSCRIPTION_MONTHLY_NAME'' [],
        cplan_currency_code = currency (pkg_price p),
        cplan_value = amount (pkg_price p)\<rparr>"

definition createProduct :: "'w paypal_client \<Rightarrow> paypal_config \<Rightarrow> Package \<Rightarrow> ('w, ProductResult) io" where
  "createProduct cl cfg p =
     CreateProductRequest cl
       \<lparr>cprod_id = asProductId p, cprod_category = ''ONLINE_GAMING'',
        cprod_description = pkg_description p, cprod_name = pkg_name p,
        cprod_type = ''DIGITAL'', cprod_home_url = homeUrl cfg\<rparr>"

definition updateProduct ::
  "'w paypal_client \<Rightarrow> paypal_config \<Rightarrow> ProductResult \<Rightarrow> Package \<Rightarrow> ('w, ProductResult) io" where
  "updateProduct cl cfg product' p =
     bindE (UpdateProductRequest cl (asProductId p)
              (requestBody (Product_property (product_result product'))
                 [(''category'', Some ''ONLINE_GAMING''),
                  (''description'', Some (pkg_description p)),
                  (''name'', Some (pkg_name p)),
                  (''home_url'', homeUrl cfg)]))
       (\<lambda>_. PaypalPayment_product cl p)"

definition updatePlan ::
  "'w paypal_client \<Rightarrow> paypal_config \<Rightarrow> PlanResult \<Rightarrow> Package \<Rightarrow> ('w, PlanResult) io" where
  "updatePlan cl cfg plan' p =
     bindE (UpdatePlanRequest cl (paypal_plan_id (plan_result plan'))
              (requestBody (Plan_property (plan_result plan'))
                 [(''description'',
                   Some (translate cfg ''PAYPAL_SUBSCRIPTION_MONTHLY_DESCRIPTION'' [])),
                  (''name'',
                   Some (translate cfg ''PAYPAL_SUBSCRIPTION_MONTHLY_NAME''
                           [(''package'', pkg_name p)]))]))
       (\<lambda>_. bindE (UpdatePricingPlanRequest cl (paypal_plan_id (plan_result plan'))
                     (currency (pkg_price p)) (amount (pkg_price p)))
         (\<lambda>_. PaypalPayment_plan cl (paypal_plan_id (plan_result plan'))))"

text \<open>
  \<^verbatim>\<open>PaypalPayment.persistSubscription(p, sp?)\<close>. \<^verbatim>\<open>sp?.payment.planId\<close> is truthy when a
  plan is given and its provider plan id is not the empty string. \<^verbatim>\<open>uuid\<close> is what
  \<^verbatim>\<open>v4()\<close> returns inside \<^verbatim>\<open>SubscriptionPlan.create\<close>, on the creating branch.
\<close>

definition persistSubscription ::
  "'w paypal_client \<Rightarrow> paypal_config \<Rightarrow> string \<Rightarrow> Package \<Rightarrow> SubscriptionPlan option \<Rightarrow>
   ('w, SubscriptionPlan) io" where
  "persistSubscription cl cfg uuid p sp =
     bindE (PaypalPayment_product cl p) (\<lambda>found.
     bindE (if statusCode found = 200 then updateProduct cl cfg found p
            else createProduct cl cfg p) (\<lambda>product'.
       let creating =
             bindE (createPlan cl cfg p) (\<lambda>plan'.
               returnE (SubscriptionPlan_create uuid p (product_id (product_result product'))
                          (paypal_plan_id (plan_result plan'))))
       in case sp of
            None \<Rightarrow> creating
          | Some sp' \<Rightarrow>
              if planId (plan_payment sp') = [] then creating
              else bindE (PaypalPayment_plan cl (planId (plan_payment sp'))) (\<lambda>current.
                   bindE (updatePlan cl cfg current p) (\<lambda>plan'.
                     returnE \<lparr>plan_id = plan_id sp', basePackage = p,
                              plan_payment =
                                \<lparr>productId = product_id (product_result product'),
                                 planId = paypal_plan_id (plan_result plan')\<rparr>\<rparr>))))"

text \<open>
  \<^verbatim>\<open>FakePayment.persistSubscription(p, plan?)\<close>, the stand-in gateway: three calls of
  \<^verbatim>\<open>v4()\<close>, for the product id, the plan id and, inside \<^verbatim>\<open>SubscriptionPlan.create\<close>, the
  logical id; the existing plan is not looked at.
\<close>

definition FakePayment_persistSubscription ::
  "string \<Rightarrow> string \<Rightarrow> string \<Rightarrow> Package \<Rightarrow> SubscriptionPlan option \<Rightarrow> SubscriptionPlan" where
  "FakePayment_persistSubscription uuid_product uuid_plan uuid p sp =
     SubscriptionPlan_create uuid p uuid_product uuid_plan"

text \<open>
  A client answers when none of its operations rejects, whatever the request and whatever
  PayPal's state.
\<close>

definition answers :: "'w paypal_client \<Rightarrow> bool" where
  "answers cl \<longleftrightarrow>
     (\<forall>i w. \<exists>r w'. GetProductRequest cl i w = (Inr r, w')) \<and>
     (\<forall>b w. \<exists>r w'. CreateProductRequest cl b w = (Inr r, w')) \<and>
     (\<forall>i ops w. \<exists>r w'. UpdateProductRequest cl i ops w = (Inr r, w')) \<and>
     (\<forall>i w. \<exists>r w'. GetPlanRequest cl i w = (Inr r, w')) \<and>
     (\<forall>b w. \<exists>r w'. CreatePlanRequest cl b w = (Inr r, w')) \<and>
     (\<forall>i ops w. \<exists>r w'. UpdatePlanRequest cl i ops w = (Inr r, w')) \<and>
     (\<forall>i c a w. \<exists>r w'. UpdatePricingPlanRequest cl i c a w = (Inr r, w'))"

definition succeeds :: "('w, 'a) io \<Rightarrow> bool" where
  "succeeds m \<longleftrightarrow> (\<forall>w. \<exists>r w'. m w = (Inr r, w'))"

section \<open>A small scenario\<close>

text \<open>
  Concrete data on which the theorems below are evaluated: one package with its plan, two
  users, a subscription of the first user under the agreement \<^verbatim>\<open>AG1\<close>, a gateway and a
  redeem engine that answer, and ones that reject.
\<close>

definition gold :: Package where
  "gold = \<lparr>pkg_id = 3, pkg_name = ''Gold'', pkg_description = ''Priority queue'',
           pkg_price = \<lparr>currency = ''USD'', amount = ''5.00''\<rparr>\<rparr>"

definition silver :: Package where
  "silver = \<lparr>pkg_id = 4, pkg_name = ''Silver'', pkg_description = ''Discord role'',
             pkg_price = \<lparr>currency = ''USD'', amount = ''2.00''\<rparr>\<rparr>"

definition gold_plan :: SubscriptionPlan where
  "gold_plan = \<lparr>plan_id = ''plan-1'', basePackage = gold,
                plan_payment = \<lparr>productId = ''DONATE-3'', planId = ''P-1''\<rparr>\<rparr>"

definition alice :: User where
  "alice = \<lparr>user_steam_id = ''S1'', user_discord_id = ''D1''\<rparr>"

definition bob :: User where
  "bob = \<lparr>user_steam_id = ''S2'', user_discord_id = ''D2''\<rparr>"

definition alice_sub :: Subscription where
  "alice_sub = \<lparr>sub_id = ''sub-1'', sub_planId = ''plan-1'', sub_payment_id = Some ''AG1'',
                sub_steamId = ''S1'', sub_discordId = ''D1'', sub_state = PENDING\<rparr>"

definition empty_sys :: sys where
  "empty_sys = \<lparr>subscriptions = [], subscriptionPlans = [gold_plan], orders = [], calls = []\<rparr>"

definition subscribed_sys :: sys where
  "subscribed_sys =
     \<lparr>subscriptions = [alice_sub], subscriptionPlans = [gold_plan], orders = [], calls = []\<rparr>"

definition answering :: collaborators where
  "answering =
     \<lparr>gw_subscribe = (\<lambda>plan user. Inr \<lparr>ps_id = ''AG1'', approvalLink = ''https://pay/AG1''\<rparr>),
      gw_cancelSubscription = (\<lambda>sub. Inr ()),
      redeem_engine = (\<lambda>order target. Inr ())\<rparr>"

definition rejecting :: collaborators where
  "rejecting =
     \<lparr>gw_subscribe = (\<lambda>plan user. Inl (GatewayFailure ''subscribe'')),
      gw_cancelSubscription = (\<lambda>sub. Inl (GatewayFailure ''cancel'')),
      redeem_engine = (\<lambda>order target. Inl (GatewayFailure ''redeem''))\<rparr>"

definition gold_ref :: Reference where
  "gold_ref = \<lparr>ref_steamId = Some ''S1'', ref_discordId = ''D1'', ref_p = gold\<rparr>"

definition cancelled_sub :: Subscription where
  "cancelled_sub = Subscription_cancel alice_sub"

definition cancelled_sys :: sys where
  "cancelled_sys =
     \<lparr>subscriptions = [cancelled_sub], subscriptionPlans = [gold_plan], orders = [], calls = []\<rparr>"

text \<open>
  A PayPal that answers every request and counts them; it knows every product and plan it is
  asked for and names each plan it creates \<^verbatim>\<open>P-1\<close>.
\<close>

definition sandbox :: "nat paypal_client" where
  "sandbox =
     \<lparr>GetProductRequest = (\<lambda>i w.
        (Inr \<lparr>statusCode = 200,
              product_result = \<lparr>product_id = i, product_name = Some ''Gold'',
                                product_description = None,
                                product_category = Some ''ONLINE_GAMING'',
                                product_home_url = None\<rparr>\<rparr>, Suc w)),
      CreateProductRequest = (\<lambda>b w.
        (Inr \<lparr>statusCode = 201,
              product_result = \<lparr>product_id = cprod_id b, product_name = Some (cprod_name b),
                                product_description = Some (cprod_description b),
                                product_category = Some (cprod_category b),
                                product_home_url = cprod_home_url b\<rparr>\<rparr>, Suc w)),
      UpdateProductRequest = (\<lambda>i ops w. (Inr (), Suc w)),
      GetPlanRequest = (\<lambda>i w.
        (Inr \<lparr>plan_result = \<lparr>paypal_plan_id = i, paypal_plan_name = Some ''Monthly'',
                             paypal_plan_description = None\<rparr>\<rparr>, Suc w)),
      CreatePlanRequest = (\<lambda>b w.
        (Inr \<lparr>plan_result = \<lparr>paypal_plan_id = ''P-1'', paypal_plan_name = Some (cplan_name b),
                             paypal_plan_description = Some (cplan_description b)\<rparr>\<rparr>, Suc w)),
      UpdatePlanRequest = (\<lambda>i ops w. (Inr (), Suc w)),
      UpdatePricingPlanRequest = (\<lambda>i c a w. (Inr (), Suc w))\<rparr>"

definition site :: paypal_config where
  "site = \<lparr>publicUrl = ''https://donate.example.org/'', translate = (\<lambda>key params. key)\<rparr>"

section \<open>Auxiliary facts\<close>

lemma find_upsert: "find (\<lambda>y. key y = key x) (upsert key x xs) = Some x"
  by (induction xs) auto

lemma find_upsert_first:
  "find P xs = Some y \<Longrightarrow> key x = key y \<Longrightarrow> P x \<Longrightarrow> find P (upsert key x xs) = Some x"
  by (induction xs) (auto split: if_splits)

lemma findByPayment_Inr:
  "subscriptions_findByPayment pid s = Inr S \<longleftrightarrow>
   find (\<lambda>sub. sub_payment_id sub = Some pid) (subscriptions s) = Some S"
  by (simp add: subscriptions_findByPayment_def split: option.splits)

lemma find_Some_holds: "find P xs = Some x \<Longrightarrow> P x"
  by (induction xs) (auto split: if_splits)

lemma succeeds_bindE: "succeeds m \<Longrightarrow> (\<And>x. succeeds (f x)) \<Longrightarrow> succeeds (bindE m f)"
  unfolding succeeds_def bindE_def
  by (metis (mono_tags, lifting) old.prod.case sum.case(2))

lemma succeeds_returnE: "succeeds (returnE x)"
  by (simp add: succeeds_def returnE_def)

lemma bindE_Inr:
  "bindE m f w = (Inr r, w') \<longleftrightarrow> (\<exists>x w1. m w = (Inr x, w1) \<and> f x w1 = (Inr r, w'))"
  by (auto simp: bindE_def split: prod.splits sum.splits)

lemma succeeds_PaypalPayment_product: "answers cl \<Longrightarrow> succeeds (PaypalPayment_product cl p)"
  by (simp add: answers_def succeeds_def PaypalPayment_product_def)

lemma succeeds_PaypalPayment_plan: "answers cl \<Longrightarrow> succeeds (PaypalPayment_plan cl i)"
  by (simp add: answers_def succeeds_def PaypalPayment_plan_def)

lemma succeeds_createPlan: "answers cl \<Longrightarrow> succeeds (createPlan cl cfg p)"
  by (simp add: answers_def succeeds_def createPlan_def)

lemma succeeds_createProduct: "answers cl \<Longrightarrow> succeeds (createProduct cl cfg p)"
  by (simp add: answers_def succeeds_def createProduct_def)

lemma succeeds_updateProduct: "answers cl \<Longrightarrow> succeeds (updateProduct cl cfg pr p)"
  unfolding updateProduct_def
  by (intro succeeds_bindE succeeds_PaypalPayment_product) (simp_all add: answers_def succeeds_def)

lemma succeeds_updatePlan: "answers cl \<Longrightarrow> succeeds (updatePlan cl cfg pl p)"
  unfolding updatePlan_def
  by (intro succeeds_bindE succeeds_PaypalPayment_plan) (simp_all add: answers_def succeeds_def)

lemma succeeds_persistSubscription:
  "answers cl \<Longrightarrow> succeeds (persistSubscription cl cfg uuid p sp)"
  unfolding persistSubscription_def Let_def
  by (intro succeeds_bindE succeeds_PaypalPayment_product)
     (auto intro!: succeeds_bindE succeeds_returnE succeeds_updateProduct succeeds_createProduct
        succeeds_PaypalPayment_plan succeeds_updatePlan succeeds_createPlan split: option.splits)

text \<open>
  Facts beside the claims: the two-argument \<^verbatim>\<open>Subscription.create\<close> stores no payment id,
  also when it is given a user; \<^verbatim>\<open>subscribe\<close> never changes the stored Subscriptions; the
  stand-in gateway gives every plan it persists a new logical id; and without a provider plan
  id \<^verbatim>\<open>persistSubscription\<close> of the PayPal gateway creates a plan under a new logical id.
\<close>

lemma subscribe_keeps_subscriptions:
  "subscriptions (snd (subscribe env uuid p user s)) = subscriptions s"
  by (simp add: subscribe_def record_call_def Subscription_create_applied_def Let_def
      split: sum.splits)

lemma Subscription_create_without_payment_id:
  "sub_payment_id (Subscription_create uuid plan user) = None \<and>
   sub_state (Subscription_create uuid plan user) = PENDING"
  by (simp add: Subscription_create_def)

lemma FakePayment_persistSubscription_new_id:
  "plan_id (FakePayment_persistSubscription uuid_product uuid_plan uuid p sp) = uuid"
  by (simp add: FakePayment_persistSubscription_def SubscriptionPlan_create_def)

lemma persistSubscription_creates_without_plan_id:
  assumes "sp = None \<or> map_option (\<lambda>sp'. planId (plan_payment sp')) sp = Some []"
      and "persistSubscription cl cfg uuid p sp w = (Inr r, w')"
  shows "plan_id r = uuid"
  using assms
  by (auto simp: persistSubscription_def bindE_Inr returnE_def Let_def
      SubscriptionPlan_create_def split: option.splits)

section \<open>Reference codec\<close>

text \<open>
  C10. \<^verbatim>\<open>Reference.asString()\<close> is the discord id, \<^verbatim>\<open>#\<close> and the package id whenever the
  steam id is falsy, be it \<^verbatim>\<open>null\<close> or the empty string, and the steam id, \<^verbatim>\<open>#\<close> and the
  package id for every non-empty steam id; two references that agree on steam id, discord id
  and package id have the same string.
\<close>

theorem asString_prefers_truthy_steamId:
  "((ref_steamId r = None \<or> ref_steamId r = Some []) \<longrightarrow>
      asString r = ref_discordId r @ ''#'' @ show_int (pkg_id (ref_p r))) \<and>
   (\<forall>sid. ref_steamId r = Some sid \<and> sid \<noteq> [] \<longrightarrow>
      asString r = sid @ ''#'' @ show_int (pkg_id (ref_p r))) \<and>
   (ref_steamId r = ref_steamId r' \<and> ref_discordId r = ref_discordId r' \<and>
      pkg_id (ref_p r) = pkg_id (ref_p r') \<longrightarrow> asString r = asString r')"
  by (auto simp: asString_def js_or_def)

theorem asString_prefers_truthy_steamId_witness:
  "asString \<lparr>ref_steamId = Some [], ref_discordId = ''D7'',
     ref_p = \<lparr>pkg_id = 3, pkg_name = ''Gold'', pkg_description = ''prio'',
              pkg_price = \<lparr>currency = ''USD'', amount = ''5.00''\<rparr>\<rparr>\<rparr> = ''D7#3'' \<and>
   asString \<lparr>ref_steamId = Some ''S1'', ref_discordId = ''D7'',
     ref_p = \<lparr>pkg_id = 3, pkg_name = ''Gold'', pkg_description = ''prio'',
              pkg_price = \<lparr>currency = ''USD'', amount = ''5.00''\<rparr>\<rparr>\<rparr> = ''S1#3''"
  using asString_prefers_truthy_steamId
    [of "\<lparr>ref_steamId = Some [], ref_discordId = ''D7'',
          ref_p = \<lparr>pkg_id = 3, pkg_name = ''Gold'', pkg_description = ''prio'',
                   pkg_price = \<lparr>currency = ''USD'', amount = ''5.00''\<rparr>\<rparr>\<rparr>"]
    asString_prefers_truthy_steamId
    [of "\<lparr>ref_steamId = Some ''S1'', ref_discordId = ''D7'',
          ref_p = \<lparr>pkg_id = 3, pkg_name = ''Gold'', pkg_description = ''prio'',
                   pkg_price = \<lparr>currency = ''USD'', amount = ''5.00''\<rparr>\<rparr>\<rparr>"]
  by (simp add: show_int_def)

section \<open>Order lifecycle\<close>

text \<open>
  C8. \<^verbatim>\<open>Order.pay(tx)\<close> throws exactly when the order has no payment, and then leaves the
  order as it was; the error is the plain \<^verbatim>\<open>Error\<close> of the pay-before-intent check
  (InvalidState in the specification's taxonomy). Otherwise it stamps the transaction id on
  the payment and sets the status to PAID, and \<^verbatim>\<open>redeemedAt\<close>, \<^verbatim>\<open>id\<close>, \<^verbatim>\<open>created\<close>,
  \<^verbatim>\<open>reference\<close>, \<^verbatim>\<open>customMessage\<close> and the other payment fields keep their values.
\<close>

theorem Order_pay_throws_iff_no_payment:
  "((\<exists>e. fst (Order_pay tx O') = Inl e) \<longleftrightarrow> order_payment O' = None) \<and>
   (order_payment O' = None \<longrightarrow>
      Order_pay tx O' =
        (Inl (Error ''paying an order which was not intended to be payed, yet''), O')) \<and>
   (\<forall>pm. order_payment O' = Some pm \<longrightarrow>
      fst (Order_pay tx O') = Inr () \<and>
      snd (Order_pay tx O') =
        O'\<lparr>order_payment := Some (pm\<lparr>op_transactionId := Some tx\<rparr>), order_status := PAID\<rparr> \<and>
      order_status (snd (Order_pay tx O')) = PAID \<and>
      map_option op_transactionId (order_payment (snd (Order_pay tx O'))) = Some (Some tx) \<and>
      map_option op_id (order_payment (snd (Order_pay tx O'))) = Some (op_id pm) \<and>
      map_option op_provider (order_payment (snd (Order_pay tx O'))) = Some (op_provider pm) \<and>
      order_redeemedAt (snd (Order_pay tx O')) = order_redeemedAt O' \<and>
      order_id (snd (Order_pay tx O')) = order_id O' \<and>
      order_created (snd (Order_pay tx O')) = order_created O' \<and>
      order_reference (snd (Order_pay tx O')) = order_reference O' \<and>
      order_customMessage (snd (Order_pay tx O')) = order_customMessage O')"
  by (cases "order_payment O'") (simp_all add: Order_pay_def)

theorem Order_pay_throws_iff_no_payment_witness:
  "Order_pay ''TX1'' (Order_createDeferred ''o-1'' 1000 gold_ref None) =
     (Inl (Error ''paying an order which was not intended to be payed, yet''),
      Order_createDeferred ''o-1'' 1000 gold_ref None) \<and>
   Order_pay ''TX1''
     (Order_create ''o-2'' 1000
        \<lparr>op_id = Some ''AG1'', op_transactionId = None, op_provider = Some ''paypal''\<rparr>
        gold_ref None) =
     (Inr (),
      \<lparr>order_id = ''o-2'', order_created = 1000, order_reference = gold_ref,
       order_customMessage = None, order_redeemedAt = None, order_status = PAID,
       order_payment = Some \<lparr>op_id = Some ''AG1'', op_transactionId = Some ''TX1'',
                              op_provider = Some ''paypal''\<rparr>\<rparr>)"
  using Order_pay_throws_iff_no_payment
    [of "''TX1''" "Order_createDeferred ''o-1'' 1000 gold_ref None"]
    Order_pay_throws_iff_no_payment
    [of "''TX1''" "Order_create ''o-2'' 1000
        \<lparr>op_id = Some ''AG1'', op_transactionId = None, op_provider = Some ''paypal''\<rparr>
        gold_ref None"]
  by (simp add: Order_createDeferred_def Order_create_def prod_eq_iff)

section \<open>The Subscriptions service: subscribing\<close>

text \<open>
  C6. When no plan is persisted for the package, \<^verbatim>\<open>subscribe\<close> fails with
  \<^verbatim>\<open>PlanNotFound\<close> and leaves the system as it was: no call of the payment gateway is
  recorded and no Subscription is written.
\<close>

theorem subscribe_without_plan:
  "\<forall>plan \<in> set (subscriptionPlans s). pkg_id (basePackage plan) \<noteq> pkg_id p \<Longrightarrow>
   subscribe env uuid p user s = (Inl PlanNotFound, s)"
  by (simp add: subscribe_def subscriptionPlans_findByPackage_def find_None_iff[THEN iffD2])

theorem subscribe_without_plan_witness:
  "map (\<lambda>plan. pkg_id (basePackage plan)) (subscriptionPlans empty_sys) = [3] \<and>
   pkg_id silver = 4 \<and>
   subscribe answering ''sub-2'' silver alice empty_sys = (Inl PlanNotFound, empty_sys)"
proof -
  have h: "\<forall>plan \<in> set (subscriptionPlans empty_sys). pkg_id (basePackage plan) \<noteq> pkg_id silver"
    by (simp add: empty_sys_def gold_plan_def gold_def silver_def)
  show ?thesis
    using subscribe_without_plan
        [OF h, where env = answering and uuid = "''sub-2''" and user = alice]
    by (simp add: empty_sys_def gold_plan_def gold_def silver_def)
qed

text \<open>
  C3. \<^verbatim>\<open>subscribe\<close> is to save a new PENDING Subscription that carries the gateway's
  agreement id, so that a lookup by that id finds it. The code does not: with the plan of the
  package persisted and the gateway answering with agreement \<^verbatim>\<open>AG1\<close>, \<^verbatim>\<open>subscribe\<close>
  calls the gateway, then throws a \<^verbatim>\<open>TypeError\<close> inside \<^verbatim>\<open>Subscription.create\<close>; no
  Subscription is saved and a lookup by \<^verbatim>\<open>AG1\<close> fails with \<^verbatim>\<open>SubscriptionNotFound\<close>.
\<close>

theorem subscribe_saves_no_subscription:
  "subscriptionPlans_findByPackage gold empty_sys = Inr gold_plan \<and>
   gw_subscribe answering gold_plan alice =
     Inr \<lparr>ps_id = ''AG1'', approvalLink = ''https://pay/AG1''\<rparr> \<and>
   fst (subscribe answering ''sub-1'' gold alice empty_sys) = Inl TypeError \<and>
   calls (snd (subscribe answering ''sub-1'' gold alice empty_sys)) =
     [GatewaySubscribe gold_plan alice] \<and>
   subscriptions (snd (subscribe answering ''sub-1'' gold alice empty_sys)) = [] \<and>
   subscriptions_findByPayment ''AG1'' (snd (subscribe answering ''sub-1'' gold alice empty_sys)) =
     Inl SubscriptionNotFound"
  by (simp add: subscribe_def subscriptionPlans_findByPackage_def empty_sys_def gold_plan_def
      answering_def record_call_def Subscription_create_applied_def
      subscriptions_findByPayment_def Let_def)

section \<open>The Subscriptions service: a billing cycle\<close>

text \<open>
  C2. When no stored Subscription carries the payment id, \<^verbatim>\<open>redeemSubscriptionPayment\<close>
  fails with \<^verbatim>\<open>SubscriptionNotFound\<close> and leaves the system as it was: the order store is
  unchanged and nothing is saved, redeemed or emitted.
\<close>

theorem redeem_unknown_payment:
  "\<forall>sub \<in> set (subscriptions s). sub_payment_id sub \<noteq> Some paymentId \<Longrightarrow>
   redeemSubscriptionPayment env uuid now paymentId tx s = (Inl SubscriptionNotFound, s)"
  by (simp add: redeemSubscriptionPayment_def subscriptions_findByPayment_def find_None_iff[THEN iffD2])

theorem redeem_unknown_payment_witness:
  "map sub_payment_id (subscriptions subscribed_sys) = [Some ''AG1''] \<and>
   redeemSubscriptionPayment answering ''o-1'' 1000 ''AG9'' ''TX1'' subscribed_sys =
     (Inl SubscriptionNotFound, subscribed_sys) \<and>
   orders (snd (redeemSubscriptionPayment answering ''o-1'' 1000 ''AG9'' ''TX1'' subscribed_sys)) =
     []"
proof -
  have h: "\<forall>sub \<in> set (subscriptions subscribed_sys). sub_payment_id sub \<noteq> Some ''AG9''"
    by (simp add: subscribed_sys_def alice_sub_def)
  show ?thesis
    using redeem_unknown_payment
        [OF h, where env = answering and uuid = "''o-1''" and now = 1000 and tx = "''TX1''"]
    by (simp add: subscribed_sys_def alice_sub_def)
qed

text \<open>
  C1. When the repository finds the Subscription \<open>S\<close> under the payment id and its plan
  \<open>PL\<close> exists, \<^verbatim>\<open>redeemSubscriptionPayment\<close> saves \<open>S\<close> as ACTIVE, creates and saves a
  new Order with payment \<^verbatim>\<open>{id: PID, transactionId: TX}\<close>, status PAID and the reference
  (steam id of \<open>S\<close>, discord id of \<open>S\<close>, base package of \<open>PL\<close>), and calls the redeem
  engine once, with that Order and the target (steam id, discord id) of \<open>S\<close>. It returns that
  Order once the redeem engine has answered, and then emits the event; a rejection of the
  redeem engine is passed on, after the Subscription and the Order have been saved.
\<close>

theorem redeem_known_payment:
  assumes "subscriptions_findByPayment PID s = Inr S"
      and "subscriptionPlans_find (sub_planId S) s = Some PL"
  shows "let order = \<lparr>order_id = uuid, order_created = now,
                      order_reference = \<lparr>ref_steamId = Some (sub_steamId S),
                                         ref_discordId = sub_discordId S,
                                         ref_p = basePackage PL\<rparr>,
                      order_customMessage = None, order_redeemedAt = None, order_status = PAID,
                      order_payment = Some \<lparr>op_id = Some PID, op_transactionId = Some TX,
                                            op_provider = None\<rparr>\<rparr>;
             target = \<lparr>target_steamId = sub_steamId S, target_discordId = sub_discordId S\<rparr>;
             outcome = redeemSubscriptionPayment env uuid now PID TX s
         in subscriptions_find (sub_id S) (snd outcome) = Some (S\<lparr>sub_state := ACTIVE\<rparr>) \<and>
            subscriptions_findByPayment PID (snd outcome) = Inr (S\<lparr>sub_state := ACTIVE\<rparr>) \<and>
            orders_find uuid (snd outcome) = Some order \<and>
            calls (snd outcome) =
              calls s @ [SubscriptionSaved (S\<lparr>sub_state := ACTIVE\<rparr>), OrderSaved order,
                         Redeem order target] @
              (case redeem_engine env order target of
                 Inl e \<Rightarrow> []
               | Inr u \<Rightarrow> [Emit ''successfulSubscriptionExecution'' target order]) \<and>
            fst outcome =
              (case redeem_engine env order target of Inl e \<Rightarrow> Inl e | Inr u \<Rightarrow> Inr order)"
proof -
  let ?S' = "S\<lparr>sub_state := ACTIVE\<rparr>"
  let ?order = "\<lparr>order_id = uuid, order_created = now,
                 order_reference = \<lparr>ref_steamId = Some (sub_steamId S),
                                    ref_discordId = sub_discordId S, ref_p = basePackage PL\<rparr>,
                 order_customMessage = None, order_redeemedAt = None, order_status = PAID,
                 order_payment = Some \<lparr>op_id = Some PID, op_transactionId = Some TX,
                                       op_provider = None\<rparr>\<rparr>"
  let ?target = "\<lparr>target_steamId = sub_steamId S, target_discordId = sub_discordId S\<rparr>"
  let ?s3 = "record_call (Redeem ?order ?target)
               (orders_save ?order (subscriptions_save ?S' s))"
  have run: "redeemSubscriptionPayment env uuid now PID TX s =
               (case redeem_engine env ?order ?target of
                  Inl e \<Rightarrow> (Inl e, ?s3)
                | Inr u \<Rightarrow>
                    (Inr ?order,
                     record_call (Emit ''successfulSubscriptionExecution'' ?target ?order) ?s3))"
    using assms
    by (simp add: redeemSubscriptionPayment_def Order_create_def Order_pay_def Let_def)
  have first: "find (\<lambda>sub. sub_payment_id sub = Some PID) (subscriptions s) = Some S"
    using assms(1) by (simp add: findByPayment_Inr)
  have pay: "sub_payment_id S = Some PID"
    using find_Some_holds [OF first] .
  have byid: "find (\<lambda>sub. sub_id sub = sub_id S) (upsert sub_id ?S' (subscriptions s)) = Some ?S'"
    using find_upsert [of sub_id ?S' "subscriptions s"] by simp
  have bypay: "find (\<lambda>sub. sub_payment_id sub = Some PID) (upsert sub_id ?S' (subscriptions s)) =
                 Some ?S'"
    using find_upsert_first [OF first, of sub_id ?S'] pay by simp
  have ord: "find (\<lambda>order. order_id order = uuid) (upsert order_id ?order (orders s)) = Some ?order"
    using find_upsert [of order_id ?order "orders s"] by simp
  show ?thesis
    unfolding Let_def run
    using byid bypay ord
    by (cases "redeem_engine env ?order ?target")
       (simp_all add: record_call_def orders_save_def subscriptions_save_def
          subscriptions_find_def subscriptions_findByPayment_def orders_find_def)
qed

theorem redeem_known_payment_witness:
  "subscriptions_findByPayment ''AG1'' subscribed_sys = Inr alice_sub \<and>
   subscriptionPlans_find (sub_planId alice_sub) subscribed_sys = Some gold_plan \<and>
   fst (redeemSubscriptionPayment answering ''o-1'' 1000 ''AG1'' ''TX1'' subscribed_sys) =
     Inr \<lparr>order_id = ''o-1'', order_created = 1000, order_reference = gold_ref,
           order_customMessage = None, order_redeemedAt = None, order_status = PAID,
           order_payment = Some \<lparr>op_id = Some ''AG1'', op_transactionId = Some ''TX1'',
                                 op_provider = None\<rparr>\<rparr> \<and>
   subscriptions_find ''sub-1''
     (snd (redeemSubscriptionPayment answering ''o-1'' 1000 ''AG1'' ''TX1'' subscribed_sys)) =
     Some (alice_sub\<lparr>sub_state := ACTIVE\<rparr>) \<and>
   orders_find ''o-1''
     (snd (redeemSubscriptionPayment answering ''o-1'' 1000 ''AG1'' ''TX1'' subscribed_sys)) =
     Some \<lparr>order_id = ''o-1'', order_created = 1000, order_reference = gold_ref,
           order_customMessage = None, order_redeemedAt = None, order_status = PAID,
           order_payment = Some \<lparr>op_id = Some ''AG1'', op_transactionId = Some ''TX1'',
                                 op_provider = None\<rparr>\<rparr> \<and>
   calls (snd (redeemSubscriptionPayment answering ''o-1'' 1000 ''AG1'' ''TX1'' subscribed_sys)) =
     [SubscriptionSaved (alice_sub\<lparr>sub_state := ACTIVE\<rparr>),
      OrderSaved
        \<lparr>order_id = ''o-1'', order_created = 1000, order_reference = gold_ref,
         order_customMessage = None, order_redeemedAt = None, order_status = PAID,
         order_payment = Some \<lparr>op_id = Some ''AG1'', op_transactionId = Some ''TX1'',
                               op_provider = None\<rparr>\<rparr>,
      Redeem
        \<lparr>order_id = ''o-1'', order_created = 1000, order_reference = gold_ref,
         order_customMessage = None, order_redeemedAt = None, order_status = PAID,
         order_payment = Some \<lparr>op_id = Some ''AG1'', op_transactionId = Some ''TX1'',
                               op_provider = None\<rparr>\<rparr>
        \<lparr>target_steamId = ''S1'', target_discordId = ''D1''\<rparr>,
      Emit ''successfulSubscriptionExecution''
        \<lparr>target_steamId = ''S1'', target_discordId = ''D1''\<rparr>
        \<lparr>order_id = ''o-1'', order_created = 1000, order_reference = gold_ref,
         order_customMessage = None, order_redeemedAt = None, order_status = PAID,
         order_payment = Some \<lparr>op_id = Some ''AG1'', op_transactionId = Some ''TX1'',
                               op_provider = None\<rparr>\<rparr>]"
proof -
  have h1: "subscriptions_findByPayment ''AG1'' subscribed_sys = Inr alice_sub"
    by (simp add: subscriptions_findByPayment_def subscribed_sys_def alice_sub_def)
  have h2: "subscriptionPlans_find (sub_planId alice_sub) subscribed_sys = Some gold_plan"
    by (simp add: subscriptionPlans_find_def subscribed_sys_def alice_sub_def gold_plan_def)
  have e: "redeem_engine answering = (\<lambda>order target. Inr ())"
    by (simp add: answering_def)
  have v: "sub_id alice_sub = ''sub-1''" "sub_steamId alice_sub = ''S1''"
    "sub_discordId alice_sub = ''D1''" "basePackage gold_plan = gold"
    "calls subscribed_sys = []"
    by (simp_all add: alice_sub_def gold_plan_def subscribed_sys_def)
  show ?thesis
    using h1 h2 redeem_known_payment
        [OF h1 h2, where env = answering and uuid = "''o-1''" and now = 1000 and TX = "''TX1''"]
    by (simp add: Let_def e v gold_ref_def)
qed

section \<open>The Subscriptions service: ownership and cancellation\<close>

text \<open>
  C7. For a stored Subscription whose discord id differs from the asking user's,
  \<^verbatim>\<open>viewSubscription\<close> and \<^verbatim>\<open>cancel\<close> fail with \<^verbatim>\<open>SubscriptionNotFound\<close> and change
  nothing, which is exactly what they do for an id under which nothing is stored.
\<close>

theorem foreign_subscription_not_found:
  "(subscriptions_find id' s = Some S \<and> sub_discordId S \<noteq> user_discord_id U \<longrightarrow>
      viewSubscription id' U s = Inl SubscriptionNotFound \<and>
      cancel env id' U s = (Inl SubscriptionNotFound, s)) \<and>
   (subscriptions_find id' s = None \<longrightarrow>
      viewSubscription id' U s = Inl SubscriptionNotFound \<and>
      cancel env id' U s = (Inl SubscriptionNotFound, s))"
  by (simp add: viewSubscription_def cancel_def subscription_def)

theorem foreign_subscription_not_found_witness:
  "subscriptions_find ''sub-1'' subscribed_sys = Some alice_sub \<and>
   sub_discordId alice_sub \<noteq> user_discord_id bob \<and>
   viewSubscription ''sub-1'' bob subscribed_sys = Inl SubscriptionNotFound \<and>
   cancel answering ''sub-1'' bob subscribed_sys = (Inl SubscriptionNotFound, subscribed_sys) \<and>
   subscriptions_find ''sub-404'' subscribed_sys = None \<and>
   viewSubscription ''sub-404'' bob subscribed_sys = Inl SubscriptionNotFound \<and>
   cancel answering ''sub-404'' bob subscribed_sys = (Inl SubscriptionNotFound, subscribed_sys)"
proof -
  have h1: "subscriptions_find ''sub-1'' subscribed_sys = Some alice_sub"
    by (simp add: subscriptions_find_def subscribed_sys_def alice_sub_def)
  have h2: "sub_discordId alice_sub \<noteq> user_discord_id bob"
    by (simp add: alice_sub_def bob_def)
  have h3: "subscriptions_find ''sub-404'' subscribed_sys = None"
    by (simp add: subscriptions_find_def subscribed_sys_def alice_sub_def)
  show ?thesis
    using h1 h2 h3
      foreign_subscription_not_found
        [where id' = "''sub-1''" and s = subscribed_sys and S = alice_sub and U = bob
           and env = answering]
      foreign_subscription_not_found
        [where id' = "''sub-404''" and s = subscribed_sys and S = alice_sub and U = bob
           and env = answering]
    by simp
qed

text \<open>
  C5. For a Subscription of the asking user, \<^verbatim>\<open>cancel\<close> first calls the gateway's
  \<^verbatim>\<open>cancelSubscription\<close> and only then saves the Subscription as CANCELLED; when the gateway
  rejects, the error is passed on and the stored Subscriptions are unchanged.
\<close>

theorem cancel_gateway_first:
  assumes "subscriptions_find id' s = Some S" and "sub_discordId S = user_discord_id U"
  shows "(gw_cancelSubscription env S = Inr () \<longrightarrow>
            fst (cancel env id' U s) = Inr () \<and>
            calls (snd (cancel env id' U s)) =
              calls s @ [GatewayCancelSubscription S, SubscriptionSaved (S\<lparr>sub_state := CANCELLED\<rparr>)] \<and>
            subscriptions_find (sub_id S) (snd (cancel env id' U s)) = Some (S\<lparr>sub_state := CANCELLED\<rparr>)) \<and>
         (\<forall>e. gw_cancelSubscription env S = Inl e \<longrightarrow>
            fst (cancel env id' U s) = Inl e \<and>
            subscriptions (snd (cancel env id' U s)) = subscriptions s \<and>
            subscriptions_find id' (snd (cancel env id' U s)) = Some S \<and>
            calls (snd (cancel env id' U s)) = calls s @ [GatewayCancelSubscription S])"
  using assms
  by (auto simp: cancel_def subscription_def record_call_def subscriptions_save_def
      Subscription_cancel_def subscriptions_find_def find_upsert [where key = sub_id and x = "S\<lparr>sub_state := CANCELLED\<rparr>", simplified])

theorem cancel_gateway_first_witness:
  "subscriptions_find ''sub-1'' subscribed_sys = Some alice_sub \<and>
   sub_discordId alice_sub = user_discord_id alice \<and>
   gw_cancelSubscription answering alice_sub = Inr () \<and>
   gw_cancelSubscription rejecting alice_sub = Inl (GatewayFailure ''cancel'') \<and>
   fst (cancel answering ''sub-1'' alice subscribed_sys) = Inr () \<and>
   calls (snd (cancel answering ''sub-1'' alice subscribed_sys)) =
     [GatewayCancelSubscription alice_sub,
      SubscriptionSaved (alice_sub\<lparr>sub_state := CANCELLED\<rparr>)] \<and>
   subscriptions_find ''sub-1'' (snd (cancel answering ''sub-1'' alice subscribed_sys)) =
     Some (alice_sub\<lparr>sub_state := CANCELLED\<rparr>) \<and>
   fst (cancel rejecting ''sub-1'' alice subscribed_sys) = Inl (GatewayFailure ''cancel'') \<and>
   subscriptions (snd (cancel rejecting ''sub-1'' alice subscribed_sys)) = [alice_sub] \<and>
   calls (snd (cancel rejecting ''sub-1'' alice subscribed_sys)) =
     [GatewayCancelSubscription alice_sub]"
proof -
  have h1: "subscriptions_find ''sub-1'' subscribed_sys = Some alice_sub"
    by (simp add: subscriptions_find_def subscribed_sys_def alice_sub_def)
  have h2: "sub_discordId alice_sub = user_discord_id alice"
    by (simp add: alice_sub_def alice_def)
  have g: "gw_cancelSubscription answering alice_sub = Inr ()"
    "gw_cancelSubscription rejecting alice_sub = Inl (GatewayFailure ''cancel'')"
    by (simp_all add: answering_def rejecting_def)
  have v: "sub_id alice_sub = ''sub-1''" "calls subscribed_sys = []"
    "subscriptions subscribed_sys = [alice_sub]"
    by (simp_all add: alice_sub_def subscribed_sys_def)
  show ?thesis
    using h1 h2 cancel_gateway_first [OF h1 h2, where env = answering]
      cancel_gateway_first [OF h1 h2, where env = rejecting]
    by (simp add: g v)
qed

section \<open>The Subscription state machine\<close>

text \<open>
  C4, as stated: a Subscription in state CANCELLED never becomes ACTIVE again. It fails:
  \<^verbatim>\<open>Subscription.pay\<close> and \<^verbatim>\<open>redeemSubscriptionPayment\<close> assign ACTIVE without looking at
  the state.
\<close>

theorem cancelled_is_left_counterexample:
  "sub_state cancelled_sub = CANCELLED \<and>
   sub_state (snd (Subscription_pay ''o-1'' 1000 ''TX1'' ''paypal'' gold cancelled_sub)) = ACTIVE \<and>
   subscriptions_find ''sub-1'' cancelled_sys = Some cancelled_sub \<and>
   map_option sub_state
     (subscriptions_find ''sub-1''
        (snd (redeemSubscriptionPayment answering ''o-1'' 1000 ''AG1'' ''TX1'' cancelled_sys))) =
     Some ACTIVE"
  by (simp add: cancelled_sub_def cancelled_sys_def alice_sub_def Subscription_cancel_def
      Subscription_pay_def Order_pay_def Order_create_def redeemSubscriptionPayment_def
      subscriptions_findByPayment_def subscriptionPlans_find_def gold_plan_def
      subscriptions_save_def subscriptions_find_def answering_def orders_save_def record_call_def
      Let_def)

text \<open>
  C4, amended. A Subscription in state CANCELLED stays CANCELLED under \<^verbatim>\<open>cancel\<close> (the
  method and the service operation) and under \<^verbatim>\<open>agreeBilling\<close>, and none of the operations
  makes it PENDING; \<^verbatim>\<open>Subscription.pay\<close> and \<^verbatim>\<open>redeemSubscriptionPayment\<close> make it ACTIVE.
\<close>

theorem cancelled_left_only_by_payment:
  assumes "sub_state S = CANCELLED"
  shows "sub_state (Subscription_cancel S) = CANCELLED \<and>
         sub_state (agreeBilling paymentId S) = CANCELLED \<and>
         (subscriptions_find id' s = Some S \<longrightarrow>
            map_option sub_state (subscriptions_find id' (snd (cancel env id' U s))) =
              Some CANCELLED) \<and>
         snd (Subscription_pay uuid now TX provider p S) = S\<lparr>sub_state := ACTIVE\<rparr> \<and>
         (subscriptions_findByPayment PID s = Inr S \<longrightarrow>
            subscriptions_find (sub_id S) (snd (redeemSubscriptionPayment env uuid now PID TX s)) =
              Some (S\<lparr>sub_state := ACTIVE\<rparr>))"
proof -
  have c: "map_option sub_state (subscriptions_find id' (snd (cancel env id' U s))) = Some CANCELLED"
    if found: "subscriptions_find id' s = Some S"
  proof -
    have key: "sub_id S = id'"
      using find_Some_holds [of "\<lambda>sub. sub_id sub = id'" "subscriptions s" S] found
      by (simp add: subscriptions_find_def)
    have up: "find (\<lambda>sub. sub_id sub = id') (upsert sub_id (S\<lparr>sub_state := CANCELLED\<rparr>) (subscriptions s)) =
                Some (S\<lparr>sub_state := CANCELLED\<rparr>)"
      using find_upsert [of sub_id "S\<lparr>sub_state := CANCELLED\<rparr>" "subscriptions s"] key by simp
    show ?thesis
      using found assms up
      by (cases "gw_cancelSubscription env S")
         (simp_all add: cancel_def subscription_def record_call_def subscriptions_save_def
            Subscription_cancel_def subscriptions_find_def)
  qed
  have r: "subscriptions_find (sub_id S) (snd (redeemSubscriptionPayment env uuid now PID TX s)) =
             Some (S\<lparr>sub_state := ACTIVE\<rparr>)"
    if found: "subscriptions_findByPayment PID s = Inr S"
  proof -
    have up: "find (\<lambda>sub. sub_id sub = sub_id S)
                (upsert sub_id (S\<lparr>sub_state := ACTIVE\<rparr>) (subscriptions s)) =
                Some (S\<lparr>sub_state := ACTIVE\<rparr>)"
      using find_upsert [of sub_id "S\<lparr>sub_state := ACTIVE\<rparr>" "subscriptions s"] by simp
    show ?thesis
      using found up
      by (simp add: redeemSubscriptionPayment_def Let_def Order_create_def Order_pay_def
          subscriptions_save_def subscriptions_find_def orders_save_def record_call_def
          split: option.splits sum.splits)
  qed
  show ?thesis
    using c r
    by (simp add: Subscription_cancel_def agreeBilling_def assms Subscription_pay_def
        Order_create_def Order_pay_def)
qed

theorem cancelled_left_only_by_payment_witness:
  "sub_state cancelled_sub = CANCELLED \<and>
   sub_state (Subscription_cancel cancelled_sub) = CANCELLED \<and>
   sub_state (agreeBilling ''AG2'' cancelled_sub) = CANCELLED \<and>
   subscriptions_find ''sub-1'' cancelled_sys = Some cancelled_sub \<and>
   map_option sub_state
     (subscriptions_find ''sub-1'' (snd (cancel answering ''sub-1'' alice cancelled_sys))) =
     Some CANCELLED \<and>
   snd (Subscription_pay ''o-1'' 1000 ''TX1'' ''paypal'' gold cancelled_sub) =
     cancelled_sub\<lparr>sub_state := ACTIVE\<rparr> \<and>
   subscriptions_findByPayment ''AG1'' cancelled_sys = Inr cancelled_sub \<and>
   subscriptions_find ''sub-1''
     (snd (redeemSubscriptionPayment answering ''o-1'' 1000 ''AG1'' ''TX1'' cancelled_sys)) =
     Some (cancelled_sub\<lparr>sub_state := ACTIVE\<rparr>)"
proof -
  have h: "sub_state cancelled_sub = CANCELLED"
    by (simp add: cancelled_sub_def Subscription_cancel_def)
  have f1: "subscriptions_find ''sub-1'' cancelled_sys = Some cancelled_sub"
    by (simp add: subscriptions_find_def cancelled_sys_def cancelled_sub_def
        Subscription_cancel_def alice_sub_def)
  have f2: "subscriptions_findByPayment ''AG1'' cancelled_sys = Inr cancelled_sub"
    by (simp add: subscriptions_findByPayment_def cancelled_sys_def cancelled_sub_def
        Subscription_cancel_def alice_sub_def)
  have v: "sub_id cancelled_sub = ''sub-1''"
    by (simp add: cancelled_sub_def Subscription_cancel_def alice_sub_def)
  show ?thesis
    using h f1 f2
      cancelled_left_only_by_payment
        [OF h, where paymentId = "''AG2''" and id' = "''sub-1''" and s = cancelled_sys
           and env = answering and U = alice and uuid = "''o-1''" and now = 1000
           and TX = "''TX1''" and provider = "''paypal''" and p = gold and PID = "''AG1''"]
    by (simp add: v)
qed

section \<open>SubscriptionPlan reconciliation\<close>

text \<open>
  C9. When the existing plan carries a provider plan id, \<^verbatim>\<open>persistSubscription(p, sp)\<close> of
  the PayPal gateway can only return a SubscriptionPlan with the logical id of \<open>sp\<close>, for the
  package \<open>p\<close>, whatever product and plan ids PayPal answers with; and it does return one
  when PayPal answers every request. This holds for the result of an earlier
  \<^verbatim>\<open>persistSubscription(p)\<close> in particular.
\<close>

theorem persistSubscription_keeps_plan_id:
  assumes "planId (plan_payment sp) \<noteq> []"
  shows "(\<forall>r w'. persistSubscription cl cfg uuid p (Some sp) w = (Inr r, w') \<longrightarrow>
            plan_id r = plan_id sp \<and> basePackage r = p) \<and>
         (answers cl \<longrightarrow> (\<exists>r w'. persistSubscription cl cfg uuid p (Some sp) w = (Inr r, w')))"
proof (intro conjI allI impI)
  fix r w'
  assume "persistSubscription cl cfg uuid p (Some sp) w = (Inr r, w')"
  then show "plan_id r = plan_id sp" and "basePackage r = p"
    using assms
    by (auto simp: persistSubscription_def bindE_Inr returnE_def Let_def)
next
  assume "answers cl"
  then show "\<exists>r w'. persistSubscription cl cfg uuid p (Some sp) w = (Inr r, w')"
    using succeeds_persistSubscription [of cl cfg uuid p "Some sp"]
    by (simp add: succeeds_def)
qed

theorem persistSubscription_keeps_plan_id_witness:
  "persistSubscription sandbox site ''plan-1'' gold None 0 = (Inr gold_plan, 4) \<and>
   planId (plan_payment gold_plan) \<noteq> [] \<and>
   answers sandbox \<and>
   (\<exists>r w'. persistSubscription sandbox site ''plan-2'' gold (Some gold_plan) 4 = (Inr r, w') \<and>
            plan_id r = ''plan-1'' \<and> basePackage r = gold)"
proof -
  have first: "persistSubscription sandbox site ''plan-1'' gold None 0 = (Inr gold_plan, 4)"
    by (simp add: persistSubscription_def bindE_def returnE_def PaypalPayment_product_def
        updateProduct_def createPlan_def sandbox_def SubscriptionPlan_create_def gold_plan_def
        asProductId_def show_int_def gold_def Let_def)
  have h: "planId (plan_payment gold_plan) \<noteq> []"
    by (simp add: gold_plan_def)
  have a: "answers sandbox"
    by (simp add: answers_def sandbox_def)
  have v: "plan_id gold_plan = ''plan-1''"
    by (simp add: gold_plan_def)
  show ?thesis
    using first h a
      persistSubscription_keeps_plan_id
        [OF h, where cl = sandbox and cfg = site and uuid = "''plan-2''" and p = gold and w = 4]
    by (auto simp: v)
qed

end
